theory Spec2Isabelle
  imports Complex_Main
begin

section \<open>X-Ray with Blue: the capture-analyze-present controller of \<^verbatim>\<open>src/App.tsx\<close>\<close>

text \<open>
  The program is one React component, \<^verbatim>\<open>App\<close>, with four state cells
  (\<^verbatim>\<open>state\<close>, \<^verbatim>\<open>result\<close>, \<^verbatim>\<open>imagePreview\<close>, \<^verbatim>\<open>errorMsg\<close>), the
  asynchronous function \<^verbatim>\<open>performAIAnalysis\<close> that asks a remote model for a JSON
  reply, and the handlers that connect them. The embedding keeps the cells as a record,
  each handler as a function on that record, and each asynchronous completion as an event
  of its own, so that a completion may arrive in whatever state the session is in by then.
  A step ends with the render of the new cells; when the render throws, React unmounts
  the component, and the step has no session to return.

  Two things the program calls are not part of the repository: the remote call
  \<^verbatim>\<open>ai.models.generateContent\<close> and the built-in \<^verbatim>\<open>JSON.parse\<close>. Both are
  taken as parameters: \<open>generateContent\<close> maps a request to a rejection or a response
  text, \<open>parse\<close> maps a text to the parsed value or to nothing when \<^verbatim>\<open>JSON.parse\<close>
  throws. Every general theorem below holds for all such functions.

  Strings are HOL strings; text outside ASCII is held as its UTF-8 bytes.
\<close>

subsection \<open>Values\<close>

text \<open>
  What \<^verbatim>\<open>JSON.parse\<close> can return. The cast \<^verbatim>\<open>as AnalysisResult\<close> is erased
  at run time, so the cell \<^verbatim>\<open>result\<close> holds any such value; \<open>JNull\<close> is
  \<^verbatim>\<open>null\<close>, also the cell's initial value. An object is its list of properties in
  insertion order, with distinct keys.
\<close>

datatype number = Finite rat | PosInfinity | NegInfinity

datatype json =
    JNull
  | JBool bool
  | JNum number
  | JStr string
  | JArr "json list"
  | JObj "(string \<times> json) list"

text \<open>Property access \<^verbatim>\<open>v.k\<close>; \<open>None\<close> is \<^verbatim>\<open>undefined\<close>.\<close>

fun field :: "string \<Rightarrow> json \<Rightarrow> json option" where
  "field k (JObj kvs) = map_of kvs k"
| "field k v = None"

text \<open>JavaScript truthiness, as used by \<^verbatim>\<open>state === AppState.RESULT && result\<close>.\<close>

fun truthy :: "json \<Rightarrow> bool" where
  "truthy JNull = False"
| "truthy (JBool b) = b"
| "truthy (JNum n) = (n \<noteq> Finite 0)"
| "truthy (JStr s) = (s \<noteq> [])"
| "truthy (JArr vs) = True"
| "truthy (JObj kvs) = True"

text \<open>
  \<^verbatim>\<open>url.split(',')[1]\<close>: the pieces between commas, and the second piece when
  there is one (\<open>None\<close> is \<^verbatim>\<open>undefined\<close>).
\<close>

fun split_comma :: "string \<Rightarrow> string list" where
  "split_comma [] = [[]]"
| "split_comma (c # cs) =
     (if c = CHR '','' then [] # split_comma cs
      else (case split_comma cs of
              [] \<Rightarrow> [[c]]
            | w # ws \<Rightarrow> (c # w) # ws))"

fun index1 :: "string list \<Rightarrow> string option" where
  "index1 (x # y # ys) = Some y"
| "index1 xs = None"

text \<open>A value placed in a template literal: \<^verbatim>\<open>undefined\<close> prints as its name.\<close>

fun template_text :: "string option \<Rightarrow> string" where
  "template_text None = ''undefined''"
| "template_text (Some s) = s"

subsection \<open>The remote analysis: \<^verbatim>\<open>performAIAnalysis\<close>\<close>

datatype schema =
    STRING
  | ARRAY schema
  | OBJECT "(string \<times> schema) list" "string list"

record request =
  model :: string
  inline_mimeType :: string
  inline_data :: "string option"
  text_part :: string
  responseMimeType :: string
  responseSchema :: schema

text \<open>The instruction text of the request (UTF-8 bytes of the template literal).\<close>

definition prompt :: string where
  "prompt = map char_of [
10, 32, 32, 32, 32, 216, 163, 217, 134, 216, 170, 32, 216, 174, 216, 168, 217, 138, 216, 177,
    32, 216, 163, 216, 180, 216, 185, 216, 169, 32, 216, 185, 216, 167, 217, 132, 217, 133, 217, 138,
    32, 217, 129, 217, 138, 32, 217, 134, 216, 184, 216, 167, 217, 133, 32, 34, 88, 45, 82, 97,
    121, 32, 119, 105, 116, 104, 32, 66, 108, 117, 101, 34, 46, 32, 216, 173, 217, 132, 217, 132,
    32, 217, 135, 216, 176, 217, 135, 32, 216, 167, 217, 132, 216, 181, 217, 136, 216, 177, 216, 169,
    32, 216, 168, 216, 175, 217, 130, 216, 169, 32, 216, 183, 216, 168, 217, 138, 216, 169, 32, 216,
    185, 216, 167, 217, 132, 217, 138, 216, 169, 46, 10, 32, 32, 32, 32, 217, 138, 216, 172, 216,
    168, 32, 216, 163, 217, 134, 32, 217, 138, 217, 131, 217, 136, 217, 134, 32, 216, 167, 217, 132,
    216, 177, 216, 175, 32, 216, 168, 216, 167, 217, 132, 217, 132, 216, 186, 216, 169, 32, 216, 167,
    217, 132, 216, 185, 216, 177, 216, 168, 217, 138, 216, 169, 32, 216, 173, 216, 181, 216, 177, 216,
    167, 217, 139, 32, 217, 136, 216, 168, 216, 181, 217, 138, 216, 186, 216, 169, 32, 74, 83, 79,
    78, 46, 10, 32, 32, 32, 32, 216, 167, 217, 132, 216, 170, 217, 129, 216, 167, 216, 181, 217,
    138, 217, 132, 32, 216, 167, 217, 132, 217, 133, 216, 183, 217, 132, 217, 136, 216, 168, 216, 169,
    58, 10, 32, 32, 32, 32, 49, 46, 32, 217, 134, 217, 136, 216, 185, 32, 216, 167, 217, 132,
    216, 170, 216, 181, 217, 136, 217, 138, 216, 177, 32, 40, 217, 133, 216, 171, 216, 167, 217, 132,
    58, 32, 216, 163, 216, 180, 216, 185, 216, 169, 32, 216, 179, 217, 138, 217, 134, 217, 138, 216,
    169, 32, 217, 132, 217, 132, 217, 138, 216, 175, 216, 140, 32, 216, 163, 216, 180, 216, 185, 216,
    169, 32, 217, 133, 217, 130, 216, 183, 216, 185, 217, 138, 216, 169, 32, 217, 132, 217, 132, 216,
    181, 216, 175, 216, 177, 41, 46, 10, 32, 32, 32, 32, 50, 46, 32, 216, 167, 216, 179, 217,
    133, 32, 216, 167, 217, 132, 216, 185, 216, 182, 217, 136, 32, 216, 167, 217, 132, 217, 133, 216,
    181, 217, 136, 216, 177, 46, 10, 32, 32, 32, 32, 51, 46, 32, 216, 167, 217, 132, 217, 134,
    216, 170, 216, 167, 216, 166, 216, 172, 32, 217, 136, 216, 167, 217, 132, 217, 133, 217, 132, 216,
    167, 216, 173, 216, 184, 216, 167, 216, 170, 32, 216, 167, 217, 132, 216, 183, 216, 168, 217, 138,
    216, 169, 32, 216, 167, 217, 132, 216, 163, 216, 179, 216, 167, 216, 179, 217, 138, 216, 169, 46,
    10, 32, 32, 32, 32, 52, 46, 32, 217, 130, 216, 167, 216, 166, 217, 133, 216, 169, 32, 216,
    168, 216, 170, 217, 129, 216, 167, 216, 181, 217, 138, 217, 132, 32, 216, 167, 216, 173, 216, 170,
    216, 177, 216, 167, 217, 129, 217, 138, 216, 169, 32, 216, 175, 217, 130, 217, 138, 217, 130, 216,
    169, 32, 217, 138, 216, 177, 216, 167, 217, 135, 216, 167, 32, 216, 167, 217, 132, 217, 133, 216,
    174, 216, 170, 216, 181, 217, 136, 217, 134, 46, 10, 32, 32 :: nat]"

text \<open>
  What a failed analysis throws: the rejection of the remote call, whatever it carries,
  or the \<^verbatim>\<open>SyntaxError\<close> of \<^verbatim>\<open>JSON.parse\<close>.
\<close>

datatype thrown = ApiError string | SyntaxError

text \<open>
  \<^verbatim>\<open>performAIAnalysis\<close> up to its \<^verbatim>\<open>await\<close>: the request it hands to
  \<^verbatim>\<open>generateContent\<close>. There is no check of \<^verbatim>\<open>base64Image\<close> before the call.
\<close>

definition performAIAnalysis_request :: "string option \<Rightarrow> request" where
  "performAIAnalysis_request base64Image =
     \<lparr> model = ''gemini-3-flash-preview'',
       inline_mimeType = ''image/jpeg'',
       inline_data = base64Image,
       text_part = prompt,
       responseMimeType = ''application/json'',
       responseSchema =
         OBJECT
           [(''imagingType'', STRING),
            (''organName'', STRING),
            (''findings'', STRING),
            (''professionalDetails'', ARRAY STRING)]
           [''imagingType'', ''organName'', ''findings'', ''professionalDetails''] \<rparr>"

text \<open>
  \<^verbatim>\<open>performAIAnalysis\<close> after its \<^verbatim>\<open>await\<close>: a rejection propagates; a response
  text goes through \<^verbatim>\<open>JSON.parse\<close> and the parsed value is returned as it is.
\<close>

definition performAIAnalysis_resume ::
  "(string \<Rightarrow> json option) \<Rightarrow> thrown + string \<Rightarrow> thrown + json" where
  "performAIAnalysis_resume parse response =
     (case response of
        Inl err \<Rightarrow> Inl err
      | Inr txt \<Rightarrow>
          (case parse txt of
             None \<Rightarrow> Inl SyntaxError
           | Some v \<Rightarrow> Inr v))"

definition performAIAnalysis ::
  "(string \<Rightarrow> json option) \<Rightarrow> (request \<Rightarrow> thrown + string) \<Rightarrow> string option \<Rightarrow> thrown + json" where
  "performAIAnalysis parse generateContent base64Image =
     performAIAnalysis_resume parse (generateContent (performAIAnalysis_request base64Image))"

subsection \<open>The component \<^verbatim>\<open>App\<close>\<close>

datatype AppState = IDLE | CAMERA | ANALYZING | RESULT | ERROR

text \<open>
  The four \<^verbatim>\<open>useState\<close> cells, and two counters of the run time around them:
  \<open>reading\<close> counts the \<^verbatim>\<open>FileReader\<close> reads that were started and have not
  loaded yet, \<open>inflight\<close> the calls of \<^verbatim>\<open>performAIAnalysis\<close> that have not settled.
\<close>

record app =
  state :: AppState
  result :: json
  imagePreview :: "string option"
  errorMsg :: "string option"
  reading :: nat
  inflight :: nat

definition init :: app where
  "init = \<lparr> state = IDLE, result = JNull, imagePreview = None, errorMsg = None,
            reading = 0, inflight = 0 \<rparr>"

text \<open>The one message \<^verbatim>\<open>startProcessing\<close> stores on failure (UTF-8 bytes).\<close>

definition analysis_failed_message :: string where
  "analysis_failed_message = map char_of [
216, 185, 216, 176, 216, 177, 216, 167, 217, 139, 216, 140, 32, 217, 132, 217, 133, 32, 217, 134,
    216, 170, 217, 133, 217, 131, 217, 134, 32, 217, 133, 217, 134, 32, 216, 170, 216, 173, 217, 132,
    217, 138, 217, 132, 32, 216, 167, 217, 132, 216, 181, 217, 136, 216, 177, 216, 169, 46, 32, 216,
    170, 216, 163, 217, 131, 216, 175, 32, 217, 133, 217, 134, 32, 217, 136, 216, 182, 217, 136, 216,
    173, 32, 216, 167, 217, 132, 216, 163, 216, 180, 216, 185, 216, 169, 32, 217, 136, 216, 173, 216,
    167, 217, 136, 217, 132, 32, 217, 133, 216, 172, 216, 175, 216, 175, 216, 167, 217, 139, 46 :: nat]"

definition setState :: "AppState \<Rightarrow> app \<Rightarrow> app" where
  "setState v s = s\<lparr>state := v\<rparr>"

text \<open>
  \<^verbatim>\<open>startProcessing\<close> up to its \<^verbatim>\<open>await\<close>: the preview is stored, the state
  becomes \<open>ANALYZING\<close>, and \<^verbatim>\<open>performAIAnalysis\<close> is called.
\<close>

definition startProcessing :: "string option \<Rightarrow> app \<Rightarrow> app" where
  "startProcessing base64 s =
     (let s1 = s\<lparr>imagePreview := Some (''data:image/jpeg;base64,'' @ template_text base64)\<rparr>;
          s2 = setState ANALYZING s1
      in s2\<lparr>inflight := Suc (inflight s2)\<rparr>)"

text \<open>
  \<^verbatim>\<open>startProcessing\<close> after its \<^verbatim>\<open>await\<close>: the \<^verbatim>\<open>try\<close> branch stores the
  data and shows the result, the \<^verbatim>\<open>catch\<close> branch drops what was thrown and stores
  the fixed message. Neither branch looks at the current state.
\<close>

definition startProcessing_settled :: "thrown + json \<Rightarrow> app \<Rightarrow> app" where
  "startProcessing_settled outcome s =
     (case outcome of
        Inr d \<Rightarrow> setState RESULT (s\<lparr>result := d\<rparr>)
      | Inl err \<Rightarrow> setState ERROR (s\<lparr>errorMsg := Some analysis_failed_message\<rparr>))"

text \<open>
  \<^verbatim>\<open>handleUpload\<close>: with a file, a read is started; \<^verbatim>\<open>reader.onload\<close> later
  passes the part of the data URL after the first comma to \<^verbatim>\<open>startProcessing\<close>.
\<close>

definition handleUpload :: "bool \<Rightarrow> app \<Rightarrow> app" where
  "handleUpload has_file s = (if has_file then s\<lparr>reading := Suc (reading s)\<rparr> else s)"

definition reader_onload :: "string \<Rightarrow> app \<Rightarrow> app" where
  "reader_onload reader_result s =
     startProcessing (index1 (split_comma reader_result)) (s\<lparr>reading := reading s - 1\<rparr>)"

text \<open>
  \<^verbatim>\<open>handleSnap\<close> of \<^verbatim>\<open>CameraInterface\<close>, whose \<^verbatim>\<open>onCapture\<close> is
  \<^verbatim>\<open>startProcessing\<close>; the argument is what \<^verbatim>\<open>canvas.toDataURL\<close> returned.
\<close>

definition handleSnap :: "string \<Rightarrow> app \<Rightarrow> app" where
  "handleSnap data_url s = startProcessing (index1 (split_comma data_url)) s"

subsection \<open>The render\<close>

text \<open>
  The render of \<^verbatim>\<open>App\<close> reads the cells. The header and the cards of the states
  \<open>IDLE\<close>, \<open>CAMERA\<close>, \<open>ANALYZING\<close> and \<open>ERROR\<close> show fixed elements and the
  string \<^verbatim>\<open>errorMsg\<close>, and cannot throw (the camera view is taken to mount: the
  platform offers \<^verbatim>\<open>navigator.mediaDevices\<close>). The result card, evaluated when
  \<^verbatim>\<open>state === AppState.RESULT && result\<close> is truthy, can:
  \<^item> \<^verbatim>\<open>result.imagingType\<close>, \<^verbatim>\<open>result.organName\<close> and \<^verbatim>\<open>result.findings\<close>
    are placed as children of an element, and so is every item of
    \<^verbatim>\<open>result.professionalDetails\<close>. React takes \<^verbatim>\<open>null\<close>, \<^verbatim>\<open>undefined\<close>, a
    boolean, a number, a string or an array of such children, and throws on an object;
  \<^item> \<^verbatim>\<open>result.professionalDetails.map\<close> is called, which throws unless
    \<^verbatim>\<open>professionalDetails\<close> is an array. A result that is not an object has no such
    property at all.
  There is no error boundary around \<^verbatim>\<open>App\<close>: when its render throws, React unmounts it.
\<close>

fun valid_child :: "json \<Rightarrow> bool" where
  "valid_child (JObj kvs) = False"
| "valid_child (JArr vs) = list_all valid_child vs"
| "valid_child v = True"

fun child_ok :: "json option \<Rightarrow> bool" where
  "child_ok None = True"
| "child_ok (Some v) = valid_child v"

fun map_callable :: "json option \<Rightarrow> bool" where
  "map_callable (Some (JArr vs)) = list_all valid_child vs"
| "map_callable v = False"

fun result_card_renders :: "json \<Rightarrow> bool" where
  "result_card_renders (JObj kvs) =
     (child_ok (field ''imagingType'' (JObj kvs)) \<and>
      child_ok (field ''organName'' (JObj kvs)) \<and>
      child_ok (field ''findings'' (JObj kvs)) \<and>
      map_callable (field ''professionalDetails'' (JObj kvs)))"
| "result_card_renders v = False"

definition renders :: "app \<Rightarrow> bool" where
  "renders s =
     (if state s = RESULT \<and> truthy (result s) then result_card_renders (result s) else True)"

text \<open>
  The end of a step that wrote a cell: the session as rendered, or nothing when the
  render threw and \<^verbatim>\<open>App\<close> was unmounted.
\<close>

definition commit :: "app \<Rightarrow> app option" where
  "commit s = (if renders s then Some s else None)"

subsection \<open>Events and steps\<close>

text \<open>
  The events the component can receive: the callbacks of the elements it renders and
  the two asynchronous completions.
\<close>

datatype event =
    UploadChange bool
  | ReaderOnload string
  | OpenCamera
  | Snap string
  | CameraCancel
  | Home
  | NewScan
  | BackToStart
  | Settled "thrown + string"

text \<open>
  An element exists only while the JSX condition around it holds: the upload input and
  the camera button when \<open>IDLE\<close>, \<^verbatim>\<open>CameraInterface\<close> when \<open>CAMERA\<close>, the header
  button when not \<open>IDLE\<close>, the result card when \<open>RESULT\<close> with a truthy result, the
  error card when \<open>ERROR\<close>; and no element exists unless the render returned, which
  only the result card can prevent. A completion needs a read or a call that is
  outstanding.
\<close>

fun enabled :: "app \<Rightarrow> event \<Rightarrow> bool" where
  "enabled s (UploadChange has_file) = (state s = IDLE)"
| "enabled s (ReaderOnload reader_result) = (0 < reading s)"
| "enabled s OpenCamera = (state s = IDLE)"
| "enabled s (Snap data_url) = (state s = CAMERA)"
| "enabled s CameraCancel = (state s = CAMERA)"
| "enabled s Home = (state s \<noteq> IDLE \<and> renders s)"
| "enabled s NewScan =
     (state s = RESULT \<and> truthy (result s) \<and> result_card_renders (result s))"
| "enabled s BackToStart = (state s = ERROR)"
| "enabled s (Settled response) = (0 < inflight s)"

text \<open>
  \<^verbatim>\<open>handleUpload\<close> writes no cell, so nothing is rendered after it; every other
  handler writes cells, and the step ends with the render.
\<close>

fun fire :: "(string \<Rightarrow> json option) \<Rightarrow> app \<Rightarrow> event \<Rightarrow> app option" where
  "fire parse s (UploadChange has_file) = Some (handleUpload has_file s)"
| "fire parse s (ReaderOnload reader_result) = commit (reader_onload reader_result s)"
| "fire parse s OpenCamera = commit (setState CAMERA s)"
| "fire parse s (Snap data_url) = commit (handleSnap data_url s)"
| "fire parse s CameraCancel = commit (setState IDLE s)"
| "fire parse s Home = commit (setState IDLE s)"
| "fire parse s NewScan = commit (setState IDLE s)"
| "fire parse s BackToStart = commit (setState IDLE s)"
| "fire parse s (Settled response) =
     commit (startProcessing_settled (performAIAnalysis_resume parse response)
               (s\<lparr>inflight := inflight s - 1\<rparr>))"

definition step :: "(string \<Rightarrow> json option) \<Rightarrow> app \<Rightarrow> event \<Rightarrow> app option" where
  "step parse s e = (if enabled s e then fire parse s e else Some s)"

text \<open>A run of events; it ends with nothing once \<^verbatim>\<open>App\<close> is unmounted.\<close>

fun run :: "(string \<Rightarrow> json option) \<Rightarrow> app \<Rightarrow> event list \<Rightarrow> app option" where
  "run parse s [] = Some s"
| "run parse s (e # es) =
     (case step parse s e of
        None \<Rightarrow> None
      | Some s' \<Rightarrow> run parse s' es)"

subsection \<open>The transition table of the specification\<close>

text \<open>
  Following the specification's words (the table of its section 4.1), for comparison
  with \<open>step\<close>: the events listed for each state. \<open>requestCamera\<close> is
  \<open>OpenCamera\<close>; \<open>imageSelected\<close> is the choice of a file and the arrival of its
  bytes; \<open>shutterPressed\<close> and \<open>cancel\<close> are \<open>Snap\<close> and \<open>CameraCancel\<close>;
  \<open>analysisSucceeded\<close> and \<open>analysisFailed\<close> are the two outcomes of \<open>Settled\<close>;
  \<open>reset\<close> is any of the three buttons that lead home.
\<close>

fun spec_listed :: "AppState \<Rightarrow> event \<Rightarrow> bool" where
  "spec_listed IDLE OpenCamera = True"
| "spec_listed IDLE (UploadChange has_file) = True"
| "spec_listed IDLE (ReaderOnload reader_result) = True"
| "spec_listed CAMERA (Snap data_url) = True"
| "spec_listed CAMERA CameraCancel = True"
| "spec_listed ANALYZING (Settled response) = True"
| "spec_listed RESULT Home = True"
| "spec_listed RESULT NewScan = True"
| "spec_listed RESULT BackToStart = True"
| "spec_listed ERROR Home = True"
| "spec_listed ERROR NewScan = True"
| "spec_listed ERROR BackToStart = True"
| "spec_listed st e = False"

subsection \<open>Sample data of the specification's scenarios\<close>

text \<open>
  The well-formed response of the round-trip scenario, a response that lacks
  \<^verbatim>\<open>organName\<close>, the empty object, and the texts that carry them.
  \<open>scenario_parse\<close> stands in for \<^verbatim>\<open>JSON.parse\<close> in the concrete runs: it agrees
  with it on these three texts and is used on no other text that parses.
\<close>

definition hand_xray :: json where
  "hand_xray =
     JObj [(''imagingType'', JStr ''X-Ray, hand''),
           (''organName'', JStr ''Left hand''),
           (''findings'', JStr ''No acute fracture.''),
           (''professionalDetails'',
              JArr [JStr ''Mild soft tissue swelling'', JStr ''No dislocation''])]"

definition hand_xray_text :: string where
  \<open>hand_xray_text =
     ''{"imagingType":"X-Ray, hand","organName":"Left hand","findings":"No acute fracture.","professionalDetails":["Mild soft tissue swelling","No dislocation"]}''\<close>

definition no_organ :: json where
  "no_organ =
     JObj [(''imagingType'', JStr ''X-Ray, hand''),
           (''findings'', JStr ''No acute fracture.''),
           (''professionalDetails'', JArr [])]"

definition no_organ_text :: string where
  \<open>no_organ_text =
     ''{"imagingType":"X-Ray, hand","findings":"No acute fracture.","professionalDetails":[]}''\<close>

definition scenario_parse :: "string \<Rightarrow> json option" where
  "scenario_parse txt =
     (if txt = hand_xray_text then Some hand_xray
      else if txt = no_organ_text then Some no_organ
      else if txt = ''{}'' then Some (JObj [])
      else None)"

text \<open>A remote service that answers every request with one text.\<close>

definition replies_with :: "string \<Rightarrow> request \<Rightarrow> thrown + string" where
  "replies_with txt req = Inr txt"

text \<open>
  Data URLs as \<^verbatim>\<open>FileReader.readAsDataURL\<close> produces them: of a small JPEG file, of
  a PNG file, and of a JPEG file of zero bytes.
\<close>

definition jpeg_url :: string where
  "jpeg_url = ''data:image/jpeg;base64,/9j/4AAQSkZJRg==''"

definition png_url :: string where
  "png_url = ''data:image/png;base64,iVBORw0KGgo=''"

definition empty_file_url :: string where
  "empty_file_url = ''data:image/jpeg;base64,''"

text \<open>
  The session while the analysis of the JPEG upload is outstanding, the same after the
  home button was pressed, and the session that shows the result of that analysis.
\<close>

definition analyzing_upload :: app where
  "analyzing_upload =
     \<lparr> state = ANALYZING, result = JNull, imagePreview = Some jpeg_url, errorMsg = None,
       reading = 0, inflight = 1 \<rparr>"

definition abandoned_upload :: app where
  "abandoned_upload =
     \<lparr> state = IDLE, result = JNull, imagePreview = Some jpeg_url, errorMsg = None,
       reading = 0, inflight = 1 \<rparr>"

definition showing_hand_xray :: app where
  "showing_hand_xray =
     \<lparr> state = RESULT, result = hand_xray, imagePreview = Some jpeg_url, errorMsg = None,
       reading = 0, inflight = 0 \<rparr>"

subsection \<open>An invariant of the preview\<close>

text \<open>
  While a call is outstanding, and in the three states that follow a capture, the
  preview has been stored.
\<close>

definition preview_stored :: "app \<Rightarrow> bool" where
  "preview_stored s =
     (if state s = ANALYZING \<or> state s = RESULT \<or> state s = ERROR \<or> 0 < inflight s
      then imagePreview s \<noteq> None else True)"

section \<open>Properties\<close>

lemmas app_defs = step_def init_def setState_def startProcessing_def
  startProcessing_settled_def handleUpload_def reader_onload_def handleSnap_def
  performAIAnalysis_resume_def performAIAnalysis_def commit_def renders_def

lemmas fixture_defs = scenario_parse_def hand_xray_text_def no_organ_text_def
  replies_with_def jpeg_url_def png_url_def empty_file_url_def analyzing_upload_def
  abandoned_upload_def showing_hand_xray_def

subsection \<open>Helper lemmas\<close>

lemma run_snoc:
  "run parse s (es @ [e]) = (case run parse s es of None \<Rightarrow> None | Some t \<Rightarrow> step parse t e)"
  by (induction es arbitrary: s) (simp_all split: option.splits)

text \<open>
  A property of the initial session that every step keeps holds of every session a run
  ends with.
\<close>

lemma run_invariant:
  assumes "P init"
    and "\<And>s e s'. P s \<Longrightarrow> step parse s e = Some s' \<Longrightarrow> P s'"
    and "run parse init es = Some t"
  shows "P t"
  using assms(3)
proof (induction es arbitrary: t rule: rev_induct)
  case Nil
  then show ?case using assms(1) by simp
next
  case (snoc e es)
  from snoc.prems obtain u where u: "run parse init es = Some u" and t: "step parse u e = Some t"
    by (auto simp add: run_snoc split: option.splits)
  from assms(2) [OF snoc.IH [OF u] t] show ?case .
qed

text \<open>The sessions that exist are those whose render returned.\<close>

lemma step_renders: "renders s \<Longrightarrow> step parse s e = Some s' \<Longrightarrow> renders s'"
  by (cases e)
     (auto simp add: step_def commit_def handleUpload_def renders_def split: if_splits)

lemma run_renders: "run parse init es = Some s \<Longrightarrow> renders s"
proof (rule run_invariant [where P = renders])
  show "renders init" by (simp add: renders_def init_def)
qed (auto intro: step_renders)

text \<open>
  Only a completion of the analysis writes \<open>result\<close> or \<open>errorMsg\<close>, and every other
  event leaves a session that renders.
\<close>

lemma step_keeps_result_and_errorMsg:
  "\<forall>response. e \<noteq> Settled response \<Longrightarrow>
   \<exists>s'. step parse s e = Some s' \<and> result s' = result s \<and> errorMsg s' = errorMsg s"
  by (cases e) (auto simp add: app_defs Let_def)

lemma step_errorMsg_cases:
  "step parse s e = Some s' \<Longrightarrow>
   errorMsg s' = errorMsg s \<or> errorMsg s' = Some analysis_failed_message"
  by (cases e) (auto simp add: app_defs Let_def split: sum.splits option.splits if_splits)

lemma step_error_state:
  "state s = ERROR \<longrightarrow> errorMsg s = Some analysis_failed_message \<Longrightarrow>
   step parse s e = Some s' \<Longrightarrow>
   state s' = ERROR \<longrightarrow> errorMsg s' = Some analysis_failed_message"
  by (cases e) (auto simp add: app_defs Let_def split: sum.splits option.splits if_splits)

text \<open>No step clears \<open>imagePreview\<close>.\<close>

lemma step_keeps_preview:
  "step parse s e = Some s' \<Longrightarrow> imagePreview s \<noteq> None \<Longrightarrow> imagePreview s' \<noteq> None"
  by (cases e) (auto simp add: app_defs Let_def split: sum.splits option.splits if_splits)

lemma preview_stored_init: "preview_stored init"
  by (simp add: preview_stored_def init_def)

lemma preview_stored_step:
  "preview_stored s \<Longrightarrow> step parse s e = Some s' \<Longrightarrow> preview_stored s'"
  by (cases e)
     (auto simp add: preview_stored_def app_defs Let_def
           split: sum.splits option.splits if_splits)

text \<open>The sample sessions are reached from the initial one.\<close>

lemma run_analyzing_upload:
  "run scenario_parse init [UploadChange True, ReaderOnload jpeg_url] = Some analyzing_upload"
  by (simp add: app_defs fixture_defs)

lemma run_abandoned_upload:
  "run scenario_parse init [UploadChange True, ReaderOnload jpeg_url, Home] =
     Some abandoned_upload"
  by (simp add: app_defs fixture_defs)

lemma run_showing_hand_xray:
  "run scenario_parse init
     [UploadChange True, ReaderOnload jpeg_url, Settled (Inr hand_xray_text)] =
     Some showing_hand_xray"
  by (simp add: app_defs fixture_defs hand_xray_def)

subsection \<open>The analysis client\<close>

text \<open>
  Claim C8. For the well-formed remote response \<^verbatim>\<open>{imagingType: "X-Ray, hand",
  organName: "Left hand", findings: "No acute fracture.", professionalDetails:
  ["Mild soft tissue swelling", "No dislocation"]}\<close>, that is, for a response text that
  \<^verbatim>\<open>JSON.parse\<close> reads as this object, \<^verbatim>\<open>performAIAnalysis\<close> returns exactly that
  structure, and its \<^verbatim>\<open>professionalDetails\<close> are the two items in their original
  order.
\<close>

theorem performAIAnalysis_round_trip:
  assumes "generateContent (performAIAnalysis_request base64Image) = Inr txt"
    and "parse txt = Some hand_xray"
  shows "\<exists>r. performAIAnalysis parse generateContent base64Image = Inr r \<and>
             r = hand_xray \<and>
             field ''imagingType'' r = Some (JStr ''X-Ray, hand'') \<and>
             field ''organName'' r = Some (JStr ''Left hand'') \<and>
             field ''findings'' r = Some (JStr ''No acute fracture.'') \<and>
             field ''professionalDetails'' r =
               Some (JArr [JStr ''Mild soft tissue swelling'', JStr ''No dislocation''])"
  using assms by (simp add: performAIAnalysis_def performAIAnalysis_resume_def hand_xray_def)

theorem performAIAnalysis_round_trip_witness:
  "replies_with hand_xray_text (performAIAnalysis_request (Some ''/9j/4AAQSkZJRg=='')) =
     Inr hand_xray_text \<and>
   scenario_parse hand_xray_text = Some hand_xray \<and>
   performAIAnalysis scenario_parse (replies_with hand_xray_text) (Some ''/9j/4AAQSkZJRg=='') =
     Inr hand_xray \<and>
   field ''professionalDetails'' hand_xray =
     Some (JArr [JStr ''Mild soft tissue swelling'', JStr ''No dislocation''])"
proof -
  have a: "replies_with hand_xray_text (performAIAnalysis_request (Some ''/9j/4AAQSkZJRg=='')) =
             Inr hand_xray_text"
    by (simp add: replies_with_def)
  have b: "scenario_parse hand_xray_text = Some hand_xray"
    by (simp add: scenario_parse_def)
  show ?thesis
    using performAIAnalysis_round_trip
            [of "replies_with hand_xray_text" "Some ''/9j/4AAQSkZJRg==''" hand_xray_text
                scenario_parse]
          a b
    by auto
qed

text \<open>
  Claim C1, as stated: a response that is valid JSON but lacks \<^verbatim>\<open>organName\<close> makes
  \<^verbatim>\<open>performAIAnalysis\<close> fail (classified \<^verbatim>\<open>MalformedResponse\<close>), and the controller
  goes from Analyzing to Failed. The code does not: the parsed value is returned without
  any check, and the session shows it as a result.
\<close>

theorem missing_organName_counterexample:
  "field ''organName'' no_organ = None \<and>
   performAIAnalysis scenario_parse (replies_with no_organ_text) (Some ''/9j/4AAQSkZJRg=='') =
     Inr no_organ \<and>
   run scenario_parse init [UploadChange True, ReaderOnload jpeg_url] = Some analyzing_upload \<and>
   state analyzing_upload = ANALYZING \<and>
   step scenario_parse analyzing_upload (Settled (Inr no_organ_text)) =
     Some \<lparr> state = RESULT, result = no_organ, imagePreview = Some jpeg_url, errorMsg = None,
            reading = 0, inflight = 0 \<rparr>"
  by (simp add: app_defs fixture_defs no_organ_def hand_xray_def)

text \<open>
  Claim C1, amended. For every remote response whose payload is valid JSON but lacks
  \<^verbatim>\<open>organName\<close>, \<^verbatim>\<open>performAIAnalysis\<close> returns the parsed value as it is, and
  the controller, on that completion, stores the value as the result and sets the state
  to \<open>RESULT\<close>, with \<open>errorMsg\<close> untouched; it never moves to Failed. The session
  then shows Result when the value is falsy or the result card can render it; when the
  value is truthy and the card cannot render it (the value is not an object, its
  \<^verbatim>\<open>professionalDetails\<close> is not an array, or a shown field or item is an object), the
  render throws and \<^verbatim>\<open>App\<close> is unmounted.
\<close>

theorem missing_organName_is_returned:
  assumes "generateContent (performAIAnalysis_request base64Image) = Inr txt"
    and "parse txt = Some v"
    and "field ''organName'' v = None"
    and "0 < inflight s"
  shows "performAIAnalysis parse generateContent base64Image = Inr v \<and>
         step parse s (Settled (Inr txt)) =
           (if truthy v \<and> \<not> result_card_renders v then None
            else Some (s\<lparr>inflight := inflight s - 1, result := v, state := RESULT\<rparr>))"
  using assms by (simp add: app_defs)

theorem missing_organName_is_returned_witness:
  "replies_with no_organ_text (performAIAnalysis_request (Some ''/9j/4AAQSkZJRg=='')) =
     Inr no_organ_text \<and>
   scenario_parse no_organ_text = Some no_organ \<and>
   field ''organName'' no_organ = None \<and>
   0 < inflight analyzing_upload \<and>
   performAIAnalysis scenario_parse (replies_with no_organ_text) (Some ''/9j/4AAQSkZJRg=='') =
     Inr no_organ \<and>
   step scenario_parse analyzing_upload (Settled (Inr no_organ_text)) =
     Some (analyzing_upload\<lparr>inflight := 0, result := no_organ, state := RESULT\<rparr>) \<and>
   replies_with ''{}'' (performAIAnalysis_request (Some ''/9j/4AAQSkZJRg=='')) = Inr ''{}'' \<and>
   scenario_parse ''{}'' = Some (JObj []) \<and>
   field ''organName'' (JObj []) = None \<and>
   performAIAnalysis scenario_parse (replies_with ''{}'') (Some ''/9j/4AAQSkZJRg=='') =
     Inr (JObj []) \<and>
   step scenario_parse analyzing_upload (Settled (Inr ''{}'')) = None"
proof -
  have a: "replies_with no_organ_text (performAIAnalysis_request (Some ''/9j/4AAQSkZJRg=='')) =
             Inr no_organ_text"
    by (simp add: replies_with_def)
  have b: "scenario_parse no_organ_text = Some no_organ"
    by (simp add: scenario_parse_def hand_xray_text_def no_organ_text_def)
  have c: "field ''organName'' no_organ = None"
    by (simp add: no_organ_def)
  have d: "0 < inflight analyzing_upload"
    by (simp add: analyzing_upload_def)
  have e: "truthy no_organ \<and> result_card_renders no_organ"
    by (simp add: no_organ_def)
  have a': "replies_with ''{}'' (performAIAnalysis_request (Some ''/9j/4AAQSkZJRg=='')) = Inr ''{}''"
    by (simp add: replies_with_def)
  have b': "scenario_parse ''{}'' = Some (JObj [])"
    by (simp add: scenario_parse_def hand_xray_text_def no_organ_text_def)
  have c': "field ''organName'' (JObj []) = None"
    by simp
  have e': "truthy (JObj []) \<and> \<not> result_card_renders (JObj [])"
    by simp
  have i: "inflight analyzing_upload - 1 = 0"
    by (simp add: analyzing_upload_def)
  show ?thesis
    using missing_organName_is_returned
            [of "replies_with no_organ_text" "Some ''/9j/4AAQSkZJRg==''" no_organ_text
                scenario_parse no_organ analyzing_upload]
          missing_organName_is_returned
            [of "replies_with ''{}''" "Some ''/9j/4AAQSkZJRg==''" "''{}''"
                scenario_parse "JObj []" analyzing_upload]
          a b c d e a' b' c' e' i
    by simp
qed

text \<open>
  Claim C5, as stated: an image whose payload is empty, or whose type is not the fixed
  image format, makes \<^verbatim>\<open>performAIAnalysis\<close> fail with \<^verbatim>\<open>InvalidInput\<close> before any
  request goes out. The code has no such check: the empty payload is put in the request,
  the payload of a PNG upload is declared \<^verbatim>\<open>image/jpeg\<close>, and in both cases the
  answer of the remote service is returned.
\<close>

theorem invalid_input_counterexample:
  "inline_data (performAIAnalysis_request (Some [])) = Some [] \<and>
   performAIAnalysis scenario_parse (replies_with hand_xray_text) (Some []) = Inr hand_xray \<and>
   index1 (split_comma png_url) = Some ''iVBORw0KGgo='' \<and>
   inline_mimeType (performAIAnalysis_request (Some ''iVBORw0KGgo='')) = ''image/jpeg'' \<and>
   performAIAnalysis scenario_parse (replies_with hand_xray_text) (Some ''iVBORw0KGgo='') =
     Inr hand_xray"
  by (simp add: app_defs fixture_defs performAIAnalysis_request_def)

text \<open>
  Claim C5, amended. \<^verbatim>\<open>performAIAnalysis\<close> validates nothing: for every payload, the
  empty one included, the request carries the payload as given with the type fixed to
  \<^verbatim>\<open>image/jpeg\<close>, and the outcome is decided by the reply alone. It returns the parsed
  value when the remote call answers with a text that parses, and it fails only with the
  rejection of the remote call or with the \<^verbatim>\<open>SyntaxError\<close> of an answer that does not
  parse.
\<close>

theorem performAIAnalysis_no_validation:
  "inline_data (performAIAnalysis_request base64Image) = base64Image \<and>
   inline_mimeType (performAIAnalysis_request base64Image) = ''image/jpeg'' \<and>
   (\<forall>txt v. generateContent (performAIAnalysis_request base64Image) = Inr txt \<and> parse txt = Some v
      \<longrightarrow> performAIAnalysis parse generateContent base64Image = Inr v) \<and>
   (\<forall>err. performAIAnalysis parse generateContent base64Image = Inl err
      \<longrightarrow> generateContent (performAIAnalysis_request base64Image) = Inl err \<or>
          (err = SyntaxError \<and>
           (\<exists>txt. generateContent (performAIAnalysis_request base64Image) = Inr txt \<and>
                  parse txt = None)))"
  by (auto simp add: performAIAnalysis_def performAIAnalysis_resume_def
        performAIAnalysis_request_def split: sum.splits option.splits)

theorem performAIAnalysis_no_validation_witness:
  "replies_with hand_xray_text (performAIAnalysis_request (Some [])) = Inr hand_xray_text \<and>
   scenario_parse hand_xray_text = Some hand_xray \<and>
   performAIAnalysis scenario_parse (replies_with hand_xray_text) (Some []) = Inr hand_xray \<and>
   performAIAnalysis scenario_parse (replies_with ''<html>'') (Some []) = Inl SyntaxError \<and>
   replies_with ''<html>'' (performAIAnalysis_request (Some [])) = Inr ''<html>'' \<and>
   scenario_parse ''<html>'' = None"
proof -
  have a: "replies_with hand_xray_text (performAIAnalysis_request (Some [])) = Inr hand_xray_text"
    by (simp add: replies_with_def)
  have b: "scenario_parse hand_xray_text = Some hand_xray"
    by (simp add: scenario_parse_def)
  have c: "performAIAnalysis scenario_parse (replies_with ''<html>'') (Some []) = Inl SyntaxError"
    by (simp add: app_defs fixture_defs)
  have d: "replies_with ''<html>'' (performAIAnalysis_request (Some [])) = Inr ''<html>''"
    by (simp add: replies_with_def)
  have e: "scenario_parse ''<html>'' = None"
    by (simp add: fixture_defs)
  from performAIAnalysis_no_validation
         [of "Some []" "replies_with hand_xray_text" scenario_parse] a b
  have "performAIAnalysis scenario_parse (replies_with hand_xray_text) (Some []) = Inr hand_xray"
    by blast
  moreover from performAIAnalysis_no_validation
         [of "Some []" "replies_with ''<html>''" scenario_parse] c
  have "replies_with ''<html>'' (performAIAnalysis_request (Some [])) = Inl SyntaxError \<or>
        (\<exists>txt. replies_with ''<html>'' (performAIAnalysis_request (Some [])) = Inr txt \<and>
               scenario_parse txt = None)"
    by blast
  ultimately show ?thesis using a b c d e by simp
qed

subsection \<open>The session controller\<close>

text \<open>
  Claim C10. Whatever makes the analysis fail (the remote call rejecting, for any reason,
  or an answer that does not parse), the completion stores one and the same message in
  \<open>errorMsg\<close>: two failures of different causes, delivered to the same session, leave
  one and the same session, in state \<open>ERROR\<close> with that message, so what the user sees
  says nothing about the cause.
\<close>

theorem failure_message_is_constant:
  assumes "0 < inflight s"
    and "performAIAnalysis_resume parse response1 = Inl err1"
    and "performAIAnalysis_resume parse response2 = Inl err2"
  shows "\<exists>s'. step parse s (Settled response1) = Some s' \<and>
              step parse s (Settled response2) = Some s' \<and>
              errorMsg s' = Some analysis_failed_message \<and>
              state s' = ERROR"
  using assms
  by (simp add: step_def startProcessing_settled_def setState_def commit_def renders_def)

theorem failure_message_is_constant_witness:
  "0 < inflight analyzing_upload \<and>
   performAIAnalysis_resume scenario_parse (Inl (ApiError ''fetch failed'')) =
     Inl (ApiError ''fetch failed'') \<and>
   performAIAnalysis_resume scenario_parse (Inr ''<html>'') = Inl SyntaxError \<and>
   step scenario_parse analyzing_upload (Settled (Inl (ApiError ''fetch failed''))) =
     Some (analyzing_upload\<lparr>inflight := 0, errorMsg := Some analysis_failed_message,
                             state := ERROR\<rparr>) \<and>
   step scenario_parse analyzing_upload (Settled (Inr ''<html>'')) =
     Some (analyzing_upload\<lparr>inflight := 0, errorMsg := Some analysis_failed_message,
                             state := ERROR\<rparr>)"
proof -
  have a: "0 < inflight analyzing_upload"
    by (simp add: analyzing_upload_def)
  have b: "performAIAnalysis_resume scenario_parse (Inl (ApiError ''fetch failed'')) =
             Inl (ApiError ''fetch failed'')"
    by (simp add: performAIAnalysis_resume_def)
  have c: "performAIAnalysis_resume scenario_parse (Inr ''<html>'') = Inl SyntaxError"
    by (simp add: performAIAnalysis_resume_def fixture_defs)
  have d: "step scenario_parse analyzing_upload (Settled (Inl (ApiError ''fetch failed''))) =
             Some (analyzing_upload\<lparr>inflight := 0, errorMsg := Some analysis_failed_message,
                                     state := ERROR\<rparr>)"
    by (simp add: app_defs analyzing_upload_def)
  from failure_message_is_constant [OF a b c] d
  have "step scenario_parse analyzing_upload (Settled (Inr ''<html>'')) =
          Some (analyzing_upload\<lparr>inflight := 0, errorMsg := Some analysis_failed_message,
                                  state := ERROR\<rparr>)"
    by auto
  with a b c d show ?thesis by simp
qed

text \<open>
  Claim C2, as stated: from Result, the reset event leads to Idle and clears both the
  stored image and the stored result. In the code the reset is \<^verbatim>\<open>setState(IDLE)\<close>
  and nothing else: at the end of the scenario upload, success, reset, both are still
  there.
\<close>

theorem reset_clears_counterexample:
  "run scenario_parse init
     [UploadChange True, ReaderOnload jpeg_url, Settled (Inr hand_xray_text)] =
     Some showing_hand_xray \<and>
   state showing_hand_xray = RESULT \<and>
   run scenario_parse init
     [UploadChange True, ReaderOnload jpeg_url, Settled (Inr hand_xray_text), NewScan] =
     Some \<lparr> state = IDLE, result = hand_xray, imagePreview = Some jpeg_url, errorMsg = None,
            reading = 0, inflight = 0 \<rparr> \<and>
   hand_xray \<noteq> JNull"
  by (simp add: app_defs fixture_defs hand_xray_def)

text \<open>
  Claim C2, amended. For every session in state Result (every such session that a run
  from the initial one ends with; a result that the result card cannot render unmounts
  \<^verbatim>\<open>App\<close> and leaves no session), the reset event moves the session to Idle and
  leaves \<open>imagePreview\<close> and \<open>result\<close>, like every other field, as they were. The
  reset is the home button of the header, and also the button of the result card when
  the result is truthy; with a falsy result that card is not shown and its button does
  nothing.
\<close>

theorem reset_from_result:
  assumes "run parse init es = Some s"
    and "state s = RESULT"
  shows "step parse s Home = Some (s\<lparr>state := IDLE\<rparr>) \<and>
         step parse s NewScan = (if truthy (result s) then Some (s\<lparr>state := IDLE\<rparr>) else Some s)"
proof -
  from run_renders [OF assms(1)] have r: "renders s" .
  with assms(2) have card: "truthy (result s) \<Longrightarrow> result_card_renders (result s)"
    by (simp add: renders_def)
  from r assms(2) have "step parse s Home = Some (s\<lparr>state := IDLE\<rparr>)"
    by (simp add: step_def setState_def commit_def renders_def)
  moreover from card assms(2)
  have "step parse s NewScan = (if truthy (result s) then Some (s\<lparr>state := IDLE\<rparr>) else Some s)"
    by (simp add: step_def setState_def commit_def renders_def)
  ultimately show ?thesis by simp
qed

theorem reset_from_result_witness:
  "run scenario_parse init
     [UploadChange True, ReaderOnload jpeg_url, Settled (Inr hand_xray_text)] =
     Some showing_hand_xray \<and>
   state showing_hand_xray = RESULT \<and>
   truthy (result showing_hand_xray) \<and>
   step scenario_parse showing_hand_xray Home = Some (showing_hand_xray\<lparr>state := IDLE\<rparr>) \<and>
   step scenario_parse showing_hand_xray NewScan = Some (showing_hand_xray\<lparr>state := IDLE\<rparr>) \<and>
   result (showing_hand_xray\<lparr>state := IDLE\<rparr>) = hand_xray \<and>
   imagePreview (showing_hand_xray\<lparr>state := IDLE\<rparr>) = Some jpeg_url"
proof -
  have a: "run scenario_parse init
             [UploadChange True, ReaderOnload jpeg_url, Settled (Inr hand_xray_text)] =
             Some showing_hand_xray"
    by (rule run_showing_hand_xray)
  have b: "state showing_hand_xray = RESULT"
    by (simp add: showing_hand_xray_def)
  have c: "truthy (result showing_hand_xray)"
    by (simp add: showing_hand_xray_def hand_xray_def)
  have d: "result (showing_hand_xray\<lparr>state := IDLE\<rparr>) = hand_xray \<and>
           imagePreview (showing_hand_xray\<lparr>state := IDLE\<rparr>) = Some jpeg_url"
    by (simp add: showing_hand_xray_def)
  show ?thesis
    using reset_from_result [OF a b] a b c d by simp
qed

text \<open>
  Claim C3, as stated: in every reachable state \<open>result\<close> and \<open>errorDetail\<close> are never
  both set, and each is unset outside its own state. In the code neither is ever reset:
  after a success, a reset and a failure, the session is Failed with the message and the
  old result both stored.
\<close>

theorem result_and_error_counterexample:
  "run scenario_parse init
     [UploadChange True, ReaderOnload jpeg_url, Settled (Inr hand_xray_text), NewScan,
      UploadChange True, ReaderOnload jpeg_url, Settled (Inl (ApiError ''fetch failed''))] =
     Some \<lparr> state = ERROR, result = hand_xray, imagePreview = Some jpeg_url,
            errorMsg = Some analysis_failed_message, reading = 0, inflight = 0 \<rparr> \<and>
   hand_xray \<noteq> JNull"
  by (simp add: app_defs fixture_defs hand_xray_def)

text \<open>
  Claim C3, amended. In every state reachable from the initial Idle session,
  \<open>errorDetail\<close> is either unset or the fixed failure message, and it is set whenever
  the state is Failed; no event other than a completion of the analysis changes
  \<open>result\<close> or \<open>errorDetail\<close> (and after such an event the session is still there),
  and no event at all unsets \<open>errorDetail\<close>.
\<close>

theorem result_and_error_persist:
  assumes "run parse init es = Some s"
  shows "(state s = ERROR \<longrightarrow> errorMsg s = Some analysis_failed_message) \<and>
         (errorMsg s = None \<or> errorMsg s = Some analysis_failed_message) \<and>
         (\<forall>s'. step parse s e = Some s' \<longrightarrow> errorMsg s \<noteq> None \<longrightarrow> errorMsg s' \<noteq> None) \<and>
         ((\<forall>response. e \<noteq> Settled response) \<longrightarrow>
            (\<exists>s'. step parse s e = Some s' \<and>
                  result s' = result s \<and> errorMsg s' = errorMsg s))"
proof -
  let ?P = "\<lambda>t. (state t = ERROR \<longrightarrow> errorMsg t = Some analysis_failed_message) \<and>
                 (errorMsg t = None \<or> errorMsg t = Some analysis_failed_message)"
  have init: "?P init"
    by (simp add: init_def)
  have keep: "?P t'" if "?P t" and "step parse t e' = Some t'" for t e' t'
    using that step_error_state [of t parse e' t'] step_errorMsg_cases [of parse t e' t']
    by auto
  have "?P s"
    by (rule run_invariant [where P = ?P, OF init keep assms])
  moreover have "\<forall>s'. step parse s e = Some s' \<longrightarrow> errorMsg s \<noteq> None \<longrightarrow> errorMsg s' \<noteq> None"
    using step_errorMsg_cases [of parse s e] by auto
  ultimately show ?thesis
    using step_keeps_result_and_errorMsg [of e parse s] by blast
qed

theorem result_and_error_persist_witness:
  "run scenario_parse init
     [UploadChange True, ReaderOnload jpeg_url, Settled (Inl (ApiError ''fetch failed''))] =
     Some (analyzing_upload\<lparr>inflight := 0, errorMsg := Some analysis_failed_message,
                             state := ERROR\<rparr>) \<and>
   step scenario_parse
     (analyzing_upload\<lparr>inflight := 0, errorMsg := Some analysis_failed_message, state := ERROR\<rparr>)
     BackToStart =
     Some (analyzing_upload\<lparr>inflight := 0, errorMsg := Some analysis_failed_message,
                             state := IDLE\<rparr>) \<and>
   errorMsg (analyzing_upload\<lparr>inflight := 0, errorMsg := Some analysis_failed_message,
                             state := IDLE\<rparr>) = Some analysis_failed_message"
proof -
  let ?s = "analyzing_upload\<lparr>inflight := 0, errorMsg := Some analysis_failed_message,
                              state := ERROR\<rparr>"
  have a: "run scenario_parse init
             [UploadChange True, ReaderOnload jpeg_url,
              Settled (Inl (ApiError ''fetch failed''))] = Some ?s"
    by (simp add: app_defs fixture_defs)
  have b: "step scenario_parse ?s BackToStart = Some (?s\<lparr>state := IDLE\<rparr>)"
    by (simp add: app_defs fixture_defs)
  have c: "\<forall>response. BackToStart \<noteq> Settled response"
    by simp
  from result_and_error_persist [OF a, of BackToStart] b c
  have "errorMsg ?s = Some analysis_failed_message \<and>
        errorMsg (?s\<lparr>state := IDLE\<rparr>) = errorMsg ?s"
    by auto
  with a b show ?thesis by simp
qed

text \<open>
  Claim C4, as stated: a completion that arrives after the session has left Analyzing,
  for example after a reset to Idle while the request was outstanding, is discarded. The
  code applies it: the continuation of \<^verbatim>\<open>startProcessing\<close> runs whatever the state
  is, so the session that was reset to Idle is moved to Result, or to Failed.
\<close>

theorem late_completion_counterexample:
  "run scenario_parse init [UploadChange True, ReaderOnload jpeg_url, Home] =
     Some abandoned_upload \<and>
   state abandoned_upload = IDLE \<and>
   run scenario_parse init
     [UploadChange True, ReaderOnload jpeg_url, Home, Settled (Inr hand_xray_text)] =
     Some \<lparr> state = RESULT, result = hand_xray, imagePreview = Some jpeg_url, errorMsg = None,
            reading = 0, inflight = 0 \<rparr> \<and>
   run scenario_parse init
     [UploadChange True, ReaderOnload jpeg_url, Home,
      Settled (Inl (ApiError ''fetch failed''))] =
     Some \<lparr> state = ERROR, result = JNull, imagePreview = Some jpeg_url,
            errorMsg = Some analysis_failed_message, reading = 0, inflight = 0 \<rparr>"
  by (simp add: app_defs fixture_defs hand_xray_def)

text \<open>
  Claim C4, amended. A completion of an outstanding analysis that arrives after the
  session has left Analyzing is applied exactly as it would be in Analyzing, the current
  state not being looked at: a failure stores the fixed message and moves the session to
  Failed; a success stores the result and sets the state to Result, after which the
  session shows Result, unless the value is truthy and the result card cannot render
  it, in which case the render throws and \<^verbatim>\<open>App\<close> is unmounted.
\<close>

theorem late_completion_is_applied:
  assumes "state s \<noteq> ANALYZING"
    and "0 < inflight s"
  shows "step parse s (Settled response) =
           step parse (s\<lparr>state := ANALYZING\<rparr>) (Settled response) \<and>
         (performAIAnalysis_resume parse response = Inr d \<longrightarrow>
            step parse s (Settled response) =
              (if truthy d \<and> \<not> result_card_renders d then None
               else Some (s\<lparr>inflight := inflight s - 1, result := d, state := RESULT\<rparr>))) \<and>
         (performAIAnalysis_resume parse response = Inl err \<longrightarrow>
            step parse s (Settled response) =
              Some (s\<lparr>inflight := inflight s - 1, errorMsg := Some analysis_failed_message,
                      state := ERROR\<rparr>))"
  using assms
  by (simp add: step_def startProcessing_settled_def setState_def commit_def renders_def
        split: sum.splits)

theorem late_completion_is_applied_witness:
  "state abandoned_upload \<noteq> ANALYZING \<and>
   0 < inflight abandoned_upload \<and>
   performAIAnalysis_resume scenario_parse (Inr hand_xray_text) = Inr hand_xray \<and>
   step scenario_parse abandoned_upload (Settled (Inr hand_xray_text)) =
     Some (abandoned_upload\<lparr>inflight := 0, result := hand_xray, state := RESULT\<rparr>) \<and>
   performAIAnalysis_resume scenario_parse (Inr ''<html>'') = Inl SyntaxError \<and>
   step scenario_parse abandoned_upload (Settled (Inr ''<html>'')) =
     Some (abandoned_upload\<lparr>inflight := 0, errorMsg := Some analysis_failed_message,
                             state := ERROR\<rparr>) \<and>
   performAIAnalysis_resume scenario_parse (Inr ''{}'') = Inr (JObj []) \<and>
   step scenario_parse abandoned_upload (Settled (Inr ''{}'')) = None"
proof -
  have a: "state abandoned_upload \<noteq> ANALYZING"
    by (simp add: abandoned_upload_def)
  have b: "0 < inflight abandoned_upload"
    by (simp add: abandoned_upload_def)
  have c: "performAIAnalysis_resume scenario_parse (Inr hand_xray_text) = Inr hand_xray"
    by (simp add: performAIAnalysis_resume_def scenario_parse_def)
  have d: "performAIAnalysis_resume scenario_parse (Inr ''<html>'') = Inl SyntaxError"
    by (simp add: performAIAnalysis_resume_def fixture_defs)
  have e: "performAIAnalysis_resume scenario_parse (Inr ''{}'') = Inr (JObj [])"
    by (simp add: performAIAnalysis_resume_def fixture_defs)
  have f: "truthy hand_xray \<and> result_card_renders hand_xray"
    by (simp add: hand_xray_def)
  have g: "truthy (JObj []) \<and> \<not> result_card_renders (JObj [])"
    by simp
  have i: "inflight abandoned_upload - 1 = 0"
    by (simp add: abandoned_upload_def)
  show ?thesis
    using late_completion_is_applied
            [OF a b, of scenario_parse "Inr hand_xray_text" hand_xray, THEN conjunct2]
          late_completion_is_applied
            [OF a b, of scenario_parse "Inr ''<html>''" _ SyntaxError, THEN conjunct2]
          late_completion_is_applied
            [OF a b, of scenario_parse "Inr ''{}''" "JObj []", THEN conjunct2]
          a b c d e f g i
    by simp
qed

text \<open>
  Claim C6, as stated: the upload of a file of zero bytes fails with
  \<^verbatim>\<open>InvalidInput\<close>, the session stays Idle and no analysis is called. The code reads
  the file and starts the analysis with what follows the comma of the data URL: the empty
  string, or \<^verbatim>\<open>undefined\<close> where the reader yields the bare \<^verbatim>\<open>data:\<close> for an
  empty file. Either way the session is Analyzing with one call outstanding.
\<close>

theorem zero_byte_upload_counterexample:
  "index1 (split_comma empty_file_url) = Some [] \<and>
   run scenario_parse init [UploadChange True, ReaderOnload empty_file_url] =
     Some \<lparr> state = ANALYZING, result = JNull,
            imagePreview = Some ''data:image/jpeg;base64,'', errorMsg = None,
            reading = 0, inflight = 1 \<rparr> \<and>
   index1 (split_comma ''data:'') = None \<and>
   run scenario_parse init [UploadChange True, ReaderOnload ''data:''] =
     Some \<lparr> state = ANALYZING, result = JNull,
            imagePreview = Some ''data:image/jpeg;base64,undefined'', errorMsg = None,
            reading = 0, inflight = 1 \<rparr>"
  by (simp add: app_defs fixture_defs)

text \<open>
  Claim C6, amended. For the upload of a zero-byte file, as for the upload of any file,
  nothing is checked: when the read completes, the session enters Analyzing, the preview
  is the data-URL prefix followed by the payload as it was read (empty here), and one
  more analysis call is outstanding.
\<close>

theorem upload_is_not_validated:
  assumes "state s = IDLE"
  shows "\<exists>s1 s'. step parse s (UploadChange True) = Some s1 \<and>
                 step parse s1 (ReaderOnload reader_result) = Some s' \<and>
                 state s' = ANALYZING \<and>
                 inflight s' = Suc (inflight s) \<and>
                 imagePreview s' =
                   Some (''data:image/jpeg;base64,'' @
                         template_text (index1 (split_comma reader_result)))"
  using assms
  by (simp add: step_def handleUpload_def reader_onload_def startProcessing_def setState_def
        commit_def renders_def Let_def)

theorem upload_is_not_validated_witness:
  "state init = IDLE \<and>
   step scenario_parse init (UploadChange True) = Some (init\<lparr>reading := 1\<rparr>) \<and>
   step scenario_parse (init\<lparr>reading := 1\<rparr>) (ReaderOnload empty_file_url) =
     Some \<lparr> state = ANALYZING, result = JNull,
            imagePreview = Some ''data:image/jpeg;base64,'', errorMsg = None,
            reading = 0, inflight = 1 \<rparr>"
proof -
  have a: "state init = IDLE"
    by (simp add: init_def)
  have b: "step scenario_parse init (UploadChange True) = Some (init\<lparr>reading := 1\<rparr>)"
    by (simp add: app_defs)
  have c: "step scenario_parse (init\<lparr>reading := 1\<rparr>) (ReaderOnload empty_file_url) =
             Some \<lparr> state = ANALYZING, result = JNull,
                    imagePreview = Some ''data:image/jpeg;base64,'', errorMsg = None,
                    reading = 0, inflight = 1 \<rparr>"
    by (simp add: app_defs fixture_defs)
  from upload_is_not_validated [OF a, of scenario_parse empty_file_url] b c
  have "state \<lparr> state = ANALYZING, result = JNull,
                imagePreview = Some ''data:image/jpeg;base64,'', errorMsg = None,
                reading = 0, inflight = 1 \<rparr> = ANALYZING"
    by auto
  with a b c show ?thesis by simp
qed

text \<open>
  Claim C7, as stated: an event that the transition table does not list for the current
  state leaves the session unchanged, for example a home/reset intent while Analyzing.
  The header's home button is rendered in every state but Idle, and in Analyzing it moves
  the session to Idle. Nor is the table's \<open>imageSelected\<close> ignored outside Idle: of two
  files chosen in Idle, the second is loaded while the first is analyzed, and its load
  replaces the preview and starts a second analysis.
\<close>

theorem unlisted_event_counterexample:
  "run scenario_parse init [UploadChange True, ReaderOnload jpeg_url] = Some analyzing_upload \<and>
   state analyzing_upload = ANALYZING \<and>
   \<not> spec_listed ANALYZING Home \<and>
   step scenario_parse analyzing_upload Home = Some abandoned_upload \<and>
   abandoned_upload \<noteq> analyzing_upload \<and>
   run scenario_parse init [UploadChange True, UploadChange True, ReaderOnload jpeg_url] =
     Some (analyzing_upload\<lparr>reading := 1\<rparr>) \<and>
   state (analyzing_upload\<lparr>reading := 1\<rparr>) = ANALYZING \<and>
   \<not> spec_listed ANALYZING (ReaderOnload png_url) \<and>
   step scenario_parse (analyzing_upload\<lparr>reading := 1\<rparr>) (ReaderOnload png_url) =
     Some \<lparr> state = ANALYZING, result = JNull,
            imagePreview = Some ''data:image/jpeg;base64,iVBORw0KGgo='', errorMsg = None,
            reading = 0, inflight = 2 \<rparr>"
  by (simp add: app_defs fixture_defs)

text \<open>
  Claim C7, amended. An event that the transition table does not list for the current
  state leaves the session, with all its fields, unchanged (so a stray shutter press while
  Analyzing changes nothing and starts no analysis), with three exceptions. The home
  button is accepted in Analyzing and in CapturingLive and moves the session to Idle. The
  load of a chosen file, in whatever state it arrives, stores the preview, sets the state
  to Analyzing and starts one more analysis. The completion of an outstanding analysis,
  in whatever state it arrives, is applied as it would be in Analyzing.
\<close>

theorem unlisted_events:
  assumes "\<not> spec_listed (state s) e"
  shows "(e \<noteq> Home \<and> (\<forall>u. e \<noteq> ReaderOnload u) \<and> (\<forall>r. e \<noteq> Settled r) \<longrightarrow>
            step parse s e = Some s) \<and>
         (e = Home \<longrightarrow>
            step parse s e = (if state s = IDLE then Some s else Some (s\<lparr>state := IDLE\<rparr>))) \<and>
         (\<forall>u. e = ReaderOnload u \<longrightarrow>
            step parse s e =
              (if 0 < reading s
               then Some (s\<lparr>reading := reading s - 1,
                            imagePreview := Some (''data:image/jpeg;base64,'' @
                                                  template_text (index1 (split_comma u))),
                            state := ANALYZING,
                            inflight := Suc (inflight s)\<rparr>)
               else Some s)) \<and>
         (\<forall>r. e = Settled r \<longrightarrow>
            step parse s e =
              (if 0 < inflight s then step parse (s\<lparr>state := ANALYZING\<rparr>) e else Some s))"
proof (cases e)
  case Home
  with assms have "state s = IDLE \<or> state s = CAMERA \<or> state s = ANALYZING"
    by (cases "state s") simp_all
  with Home show ?thesis
    by (auto simp add: step_def setState_def commit_def renders_def)
next
  case (ReaderOnload u)
  then show ?thesis
    by (simp add: step_def reader_onload_def startProcessing_def setState_def commit_def
          renders_def Let_def)
next
  case (Settled r)
  then show ?thesis
    by (simp add: step_def startProcessing_settled_def setState_def split: sum.splits)
next
  case (UploadChange f)
  with assms have "state s \<noteq> IDLE" by (cases "state s") simp_all
  with UploadChange show ?thesis by (simp add: step_def)
next
  case OpenCamera
  with assms have "state s \<noteq> IDLE" by (cases "state s") simp_all
  with OpenCamera show ?thesis by (simp add: step_def)
next
  case (Snap u)
  with assms have "state s \<noteq> CAMERA" by (cases "state s") simp_all
  with Snap show ?thesis by (simp add: step_def)
next
  case CameraCancel
  with assms have "state s \<noteq> CAMERA" by (cases "state s") simp_all
  with CameraCancel show ?thesis by (simp add: step_def)
next
  case NewScan
  with assms have "state s \<noteq> RESULT" by (cases "state s") simp_all
  with NewScan show ?thesis by (simp add: step_def)
next
  case BackToStart
  with assms have "state s \<noteq> ERROR" by (cases "state s") simp_all
  with BackToStart show ?thesis by (simp add: step_def)
qed

theorem unlisted_events_witness:
  "\<not> spec_listed (state analyzing_upload) (Snap jpeg_url) \<and>
   step scenario_parse analyzing_upload (Snap jpeg_url) = Some analyzing_upload \<and>
   \<not> spec_listed (state analyzing_upload) Home \<and>
   step scenario_parse analyzing_upload Home = Some (analyzing_upload\<lparr>state := IDLE\<rparr>) \<and>
   \<not> spec_listed (state (analyzing_upload\<lparr>reading := 1\<rparr>)) (ReaderOnload png_url) \<and>
   step scenario_parse (analyzing_upload\<lparr>reading := 1\<rparr>) (ReaderOnload png_url) =
     Some (analyzing_upload\<lparr>reading := 0,
             imagePreview := Some ''data:image/jpeg;base64,iVBORw0KGgo='', inflight := 2\<rparr>) \<and>
   \<not> spec_listed (state abandoned_upload) (Settled (Inr hand_xray_text)) \<and>
   step scenario_parse abandoned_upload (Settled (Inr hand_xray_text)) =
     step scenario_parse (abandoned_upload\<lparr>state := ANALYZING\<rparr>) (Settled (Inr hand_xray_text))"
proof -
  have a: "state analyzing_upload = ANALYZING \<and> reading analyzing_upload = 0 \<and>
           inflight analyzing_upload = 1"
    by (simp add: analyzing_upload_def)
  have b: "state abandoned_upload = IDLE \<and> 0 < inflight abandoned_upload"
    by (simp add: abandoned_upload_def)
  have c: "template_text (index1 (split_comma png_url)) = ''iVBORw0KGgo=''"
    by (simp add: png_url_def)
  have l1: "\<not> spec_listed (state analyzing_upload) (Snap jpeg_url)"
    using a by simp
  have l2: "\<not> spec_listed (state analyzing_upload) Home"
    using a by simp
  have l3: "\<not> spec_listed (state (analyzing_upload\<lparr>reading := 1\<rparr>)) (ReaderOnload png_url)"
    using a by simp
  have l4: "\<not> spec_listed (state abandoned_upload) (Settled (Inr hand_xray_text))"
    using b by simp
  show ?thesis
    using unlisted_events [OF l1, of scenario_parse]
          unlisted_events [OF l2, of scenario_parse]
          unlisted_events [OF l3, of scenario_parse]
          unlisted_events [OF l4, of scenario_parse]
          a b c l1 l2 l3 l4
    by (simp add: analyzing_upload_def)
qed

text \<open>
  Claim C9, as stated: on every transition into Analyzing a non-empty encoded image has
  been stored just before. The shutter of a camera view whose video has no frame yet
  (for instance with the camera permission refused) draws a canvas of zero size, for which
  \<^verbatim>\<open>canvas.toDataURL\<close> yields \<^verbatim>\<open>data:,\<close>: the session enters Analyzing and the
  stored preview is the bare prefix, an image of no bytes.
\<close>

theorem empty_capture_counterexample:
  "run scenario_parse init [OpenCamera] = Some (init\<lparr>state := CAMERA\<rparr>) \<and>
   index1 (split_comma ''data:,'') = Some [] \<and>
   run scenario_parse init [OpenCamera, Snap ''data:,''] =
     Some \<lparr> state = ANALYZING, result = JNull,
            imagePreview = Some ''data:image/jpeg;base64,'', errorMsg = None,
            reading = 0, inflight = 1 \<rparr> \<and>
   index1 (split_comma ''data:image/jpeg;base64,'') = Some []"
  by (simp add: app_defs fixture_defs)

text \<open>
  Claim C9, amended. The session enters Analyzing only by the load of an uploaded file
  or by the shutter of the live capture, and each of them, in the same update as the
  change of state, stores as the preview the data-URL prefix followed by exactly the
  payload it was given (what follows the first comma of the data URL), which may be
  empty; this holds also when the load arrives while the session is already Analyzing.
  In every reachable state that is Analyzing, Result or Failed the preview is set, and
  no event clears it, in these states or in any other.
\<close>

theorem preview_is_stored_and_kept:
  assumes "run parse init es = Some s"
  shows "(0 < reading s \<longrightarrow>
            step parse s (ReaderOnload u) =
              Some (s\<lparr>reading := reading s - 1,
                      imagePreview := Some (''data:image/jpeg;base64,'' @
                                            template_text (index1 (split_comma u))),
                      state := ANALYZING,
                      inflight := Suc (inflight s)\<rparr>)) \<and>
         (state s = CAMERA \<longrightarrow>
            step parse s (Snap u) =
              Some (s\<lparr>imagePreview := Some (''data:image/jpeg;base64,'' @
                                            template_text (index1 (split_comma u))),
                      state := ANALYZING,
                      inflight := Suc (inflight s)\<rparr>)) \<and>
         (\<forall>s'. step parse s e = Some s' \<and> state s' = ANALYZING \<and> state s \<noteq> ANALYZING \<longrightarrow>
               (\<exists>v. e = ReaderOnload v \<or> e = Snap v)) \<and>
         (state s = ANALYZING \<or> state s = RESULT \<or> state s = ERROR \<longrightarrow>
            imagePreview s \<noteq> None) \<and>
         (\<forall>s'. step parse s e = Some s' \<longrightarrow> imagePreview s \<noteq> None \<longrightarrow> imagePreview s' \<noteq> None)"
proof -
  have load: "0 < reading s \<longrightarrow>
            step parse s (ReaderOnload u) =
              Some (s\<lparr>reading := reading s - 1,
                      imagePreview := Some (''data:image/jpeg;base64,'' @
                                            template_text (index1 (split_comma u))),
                      state := ANALYZING,
                      inflight := Suc (inflight s)\<rparr>)"
    by (simp add: step_def reader_onload_def startProcessing_def setState_def commit_def
          renders_def Let_def)
  have snap: "state s = CAMERA \<longrightarrow>
            step parse s (Snap u) =
              Some (s\<lparr>imagePreview := Some (''data:image/jpeg;base64,'' @
                                            template_text (index1 (split_comma u))),
                      state := ANALYZING,
                      inflight := Suc (inflight s)\<rparr>)"
    by (simp add: step_def handleSnap_def startProcessing_def setState_def commit_def
          renders_def Let_def)
  have enter: "\<forall>s'. step parse s e = Some s' \<and> state s' = ANALYZING \<and> state s \<noteq> ANALYZING \<longrightarrow>
                 (\<exists>v. e = ReaderOnload v \<or> e = Snap v)"
    by (cases e) (auto simp add: app_defs Let_def split: sum.splits option.splits if_splits)
  have "preview_stored s"
    by (rule run_invariant [where P = preview_stored,
                            OF preview_stored_init preview_stored_step assms])
  then have stored: "state s = ANALYZING \<or> state s = RESULT \<or> state s = ERROR \<longrightarrow>
                       imagePreview s \<noteq> None"
    by (auto simp add: preview_stored_def split: if_splits)
  have kept: "\<forall>s'. step parse s e = Some s' \<longrightarrow> imagePreview s \<noteq> None \<longrightarrow>
                   imagePreview s' \<noteq> None"
    using step_keeps_preview [of parse s e] by blast
  from load snap enter stored kept show ?thesis by blast
qed

theorem preview_is_stored_and_kept_witness:
  "run scenario_parse init [OpenCamera] = Some (init\<lparr>state := CAMERA\<rparr>) \<and>
   state (init\<lparr>state := CAMERA\<rparr>) = CAMERA \<and>
   step scenario_parse (init\<lparr>state := CAMERA\<rparr>) (Snap jpeg_url) =
     Some (init\<lparr>imagePreview := Some jpeg_url, state := ANALYZING, inflight := 1\<rparr>) \<and>
   run scenario_parse init [UploadChange True, ReaderOnload jpeg_url] = Some analyzing_upload \<and>
   state analyzing_upload = ANALYZING \<and>
   imagePreview analyzing_upload \<noteq> None \<and>
   step scenario_parse analyzing_upload Home = Some abandoned_upload \<and>
   imagePreview abandoned_upload \<noteq> None"
proof -
  have a: "run scenario_parse init [OpenCamera] = Some (init\<lparr>state := CAMERA\<rparr>)"
    by (simp add: app_defs)
  have b: "state (init\<lparr>state := CAMERA\<rparr>) = CAMERA"
    by simp
  have c: "''data:image/jpeg;base64,'' @ template_text (index1 (split_comma jpeg_url)) = jpeg_url"
    by (simp add: jpeg_url_def)
  have d: "state analyzing_upload = ANALYZING"
    by (simp add: analyzing_upload_def)
  have e: "step scenario_parse analyzing_upload Home = Some abandoned_upload"
    by (simp add: app_defs fixture_defs)
  have f: "inflight (init\<lparr>state := CAMERA\<rparr>) = 0"
    by (simp add: init_def)
  from preview_is_stored_and_kept [OF a, of jpeg_url] b c f
  have g: "step scenario_parse (init\<lparr>state := CAMERA\<rparr>) (Snap jpeg_url) =
             Some (init\<lparr>imagePreview := Some jpeg_url, state := ANALYZING, inflight := 1\<rparr>)"
    by simp
  from preview_is_stored_and_kept [OF run_analyzing_upload, of _ Home] d e
  have h: "imagePreview analyzing_upload \<noteq> None \<and> imagePreview abandoned_upload \<noteq> None"
    by auto
  from a b g run_analyzing_upload d e h show ?thesis by simp
qed

end
